theory Spec2Isabelle
  imports Complex_Main "HOL-Library.Product_Lexorder" "HOL-Library.AList"
begin

section \<open>Values of the Python run time\<close>

text \<open>
  The program is the single class \<open>TimeTrackerApp\<close> of \<open>Work_Hours.py\<close>. Its widgets are
  left out; what its methods read from the environment (the two clocks, the text typed into a
  dialog, the content of \<open>time_records.json\<close>) is an argument of the model, and what they
  leave behind (the timer fields, the file, the message shown) is its result.

  A naive \<open>datetime\<close> is the tuple of its fields; \<open>date\<close> is its first three.
\<close>

record date =
  year :: nat
  month :: nat
  day :: nat

record datetime = date +
  hour :: nat
  minute :: nat
  second :: nat
  microsecond :: nat

text \<open>
  A value stored under a key of a record (what \<open>json.load\<close> can put there, nested
  containers apart). A Python \<open>float\<close> is represented by the real number it denotes; the
  rounding of float arithmetic is the library function \<open>fl\<close> below.
\<close>

datatype pyval = PNone | PBool bool | PInt int | PFloat real | PStr string

text \<open>A record is a \<open>dict\<close>: keys in insertion order, each key once.\<close>

type_synonym time_record = "(string \<times> pyval) list"

text \<open>
  What a method reports. The first seven are the messages of the source, named as the
  specification names them; then the Python exceptions that no handler of the class catches.
  \<open>InvalidDateRange\<close> is the specification's name for an end date before the start date;
  no statement of the source reports it.
\<close>

datatype error =
    AlreadyRunning      \<comment> \<open>showwarning: Timer is already running!\<close>
  | NotRunning          \<comment> \<open>showwarning: No timer is running to pause.\<close>
  | NoActiveSession     \<comment> \<open>showwarning: No active or paused session to stop.\<close>
  | InvalidFormat       \<comment> \<open>showerror: Invalid date/time. Use YYYY-MM-DD HH:MM:SS format.\<close>
  | EndBeforeStart      \<comment> \<open>showerror: End time cannot be before start time.\<close>
  | InvalidDateFormat   \<comment> \<open>ValueError: Dates must be in YYYY-MM-DD format.\<close>
  | NoRecordsInRange    \<comment> \<open>ValueError: No records found in the specified date range.\<close>
  | CorruptStorage      \<comment> \<open>json.JSONDecodeError out of json.load\<close>
  | AttributeError
  | KeyError
  | TypeError
  | ValueError
  | IndexError
  | InvalidDateRange

section \<open>The standard library, as far as the program calls it\<close>

text \<open>
  The parsers, the JSON codec and the rounding of binary64 arithmetic are not code of the
  program. They are taken as a parameter \<open>lib\<close> of every function that calls them, so that
  each theorem holds for whatever these functions compute:
  \<^item> \<open>fl x\<close>: the float nearest to the real \<open>x\<close>;
  \<^item> \<open>strptime_datetime s\<close>: \<open>datetime.strptime(s, "%Y-%m-%d %H:%M:%S")\<close>, \<open>None\<close> for its
    \<open>ValueError\<close>;
  \<^item> \<open>strptime_date s\<close>: \<open>datetime.strptime(s, "%Y-%m-%d")\<close>;
  \<^item> \<open>fromisoformat s\<close>: \<open>datetime.fromisoformat(s)\<close> on a string (an offset it may carry
    plays no part: only \<open>.date()\<close> is taken of the result);
  \<^item> \<open>json_load s\<close>: \<open>json.load\<close> on a file of content \<open>s\<close>, \<open>None\<close> for
    \<open>JSONDecodeError\<close>; the program expects a list of objects and so does the model;
  \<^item> \<open>json_dump rs\<close>: the chunks \<open>json.dump(rs, f, indent=4)\<close> writes to \<open>f\<close>, in order;
  \<^item> \<open>float_sum x ns\<close>: what the built-in \<open>sum\<close> returns once its total is the float \<open>x\<close> and
    the numbers \<open>ns\<close> remain. CPython up to 3.11 adds them one by one, each addition rounded;
    from 3.12 on it carries a compensation term (Neumaier), so the result depends on the
    version.
\<close>

record pylib =
  fl :: "real \<Rightarrow> real"
  strptime_datetime :: "string \<Rightarrow> datetime option"
  strptime_date :: "string \<Rightarrow> datetime option"
  fromisoformat :: "string \<Rightarrow> datetime option"
  json_load :: "string \<Rightarrow> time_record list option"
  json_dump :: "time_record list \<Rightarrow> string list"
  float_sum :: "real \<Rightarrow> (int + real) list \<Rightarrow> real"

subsection \<open>Dates and times\<close>

text \<open>\<open>dt.date()\<close>.\<close>

definition date_of :: "datetime \<Rightarrow> date" where
  "date_of dt = \<lparr>year = year dt, month = month dt, day = day dt\<rparr>"

text \<open>Comparison of dates and of naive datetimes is comparison of their field tuples.\<close>

definition date_le :: "date \<Rightarrow> date \<Rightarrow> bool" where
  "date_le a b \<longleftrightarrow> (year a, month a, day a) \<le> (year b, month b, day b)"

definition datetime_less :: "datetime \<Rightarrow> datetime \<Rightarrow> bool" where
  "datetime_less a b \<longleftrightarrow>
     (year a, month a, day a, hour a, minute a, second a, microsecond a)
       < (year b, month b, day b, hour b, minute b, second b, microsecond b)"

text \<open>The proleptic Gregorian ordinal of a date (\<open>toordinal\<close>): day 1 is 0001-01-01.\<close>

definition is_leap :: "nat \<Rightarrow> bool" where
  "is_leap y \<longleftrightarrow> y mod 4 = 0 \<and> (y mod 100 \<noteq> 0 \<or> y mod 400 = 0)"

definition days_before_year :: "nat \<Rightarrow> int" where
  "days_before_year y =
     (let y1 = int y - 1 in y1 * 365 + y1 div 4 - y1 div 100 + y1 div 400)"

definition days_before_month :: "nat \<Rightarrow> nat \<Rightarrow> int" where
  "days_before_month y m =
     (if 1 \<le> m \<and> m \<le> 12
      then [0, 31, 59, 90, 120, 151, 181, 212, 243, 273, 304, 334] ! (m - 1)
           + (if 2 < m \<and> is_leap y then 1 else 0)
      else 0)"

definition toordinal :: "datetime \<Rightarrow> int" where
  "toordinal dt = days_before_year (year dt) + days_before_month (year dt) (month dt) + int (day dt)"

text \<open>
  \<open>(a - b).total_seconds()\<close> for naive datetimes: the difference in microseconds, an exact
  integer, divided by \<open>10**6\<close> as \<open>int / int\<close>, which rounds once.
\<close>

definition microseconds_of :: "datetime \<Rightarrow> int" where
  "microseconds_of dt =
     ((toordinal dt * 86400 + int (hour dt) * 3600 + int (minute dt) * 60 + int (second dt))
        * 1000000 + int (microsecond dt))"

definition total_seconds :: "pylib \<Rightarrow> datetime \<Rightarrow> datetime \<Rightarrow> real" where
  "total_seconds lib a b = fl lib (real_of_int (microseconds_of a - microseconds_of b) / 1000000)"

text \<open>\<open>dt.isoformat()\<close> of a naive datetime.\<close>

definition digit :: "nat \<Rightarrow> char" where
  "digit n = ''0123456789'' ! (n mod 10)"

definition d2 :: "nat \<Rightarrow> string" where
  "d2 n = [digit (n div 10), digit n]"

definition d4 :: "nat \<Rightarrow> string" where
  "d4 n = [digit (n div 1000), digit (n div 100), digit (n div 10), digit n]"

definition d6 :: "nat \<Rightarrow> string" where
  "d6 n = [digit (n div 100000), digit (n div 10000), digit (n div 1000),
           digit (n div 100), digit (n div 10), digit n]"

definition isoformat :: "datetime \<Rightarrow> string" where
  "isoformat dt =
     d4 (year dt) @ ''-'' @ d2 (month dt) @ ''-'' @ d2 (day dt) @ ''T'' @
     d2 (hour dt) @ '':'' @ d2 (minute dt) @ '':'' @ d2 (second dt) @
     (if microsecond dt = 0 then [] else ''.'' @ d6 (microsecond dt))"

subsection \<open>Dictionaries\<close>

text \<open>\<open>r[k]\<close>, \<open>r.get(k, d)\<close> and \<open>r[k] = v\<close>.\<close>

definition getitem :: "time_record \<Rightarrow> string \<Rightarrow> error + pyval" where
  "getitem r k = (case map_of r k of None \<Rightarrow> Inl KeyError | Some v \<Rightarrow> Inr v)"

definition get_default :: "time_record \<Rightarrow> string \<Rightarrow> pyval \<Rightarrow> pyval" where
  "get_default r k d = (case map_of r k of None \<Rightarrow> d | Some v \<Rightarrow> v)"

definition setitem :: "time_record \<Rightarrow> string \<Rightarrow> pyval \<Rightarrow> time_record" where
  "setitem r k v = AList.update k v r"

section \<open>Timer logic\<close>

text \<open>The four timer fields set by \<open>__init__\<close>.\<close>

record timer =
  timer_running :: bool
  start_time :: "real option"
  start_time_dt :: "datetime option"
  elapsed_time :: real

definition init :: timer where
  "init = \<lparr>timer_running = False, start_time = None, start_time_dt = None, elapsed_time = 0\<rparr>"

text \<open>
  Every method returns what it reported (\<open>None\<close> when it ran to its end) and the fields as it
  left them. \<open>now_dt\<close> is the reading of \<open>datetime.now()\<close>, \<open>now\<close> that of \<open>time.time()\<close>.
\<close>

definition start_timer :: "datetime \<Rightarrow> real \<Rightarrow> timer \<Rightarrow> error option \<times> timer" where
  "start_timer now_dt now st =
     (if timer_running st then (Some AlreadyRunning, st)
      else (None, st\<lparr>start_time_dt := Some now_dt, start_time := Some now,
                      timer_running := True, elapsed_time := 0\<rparr>))"

definition pause_timer :: "pylib \<Rightarrow> real \<Rightarrow> timer \<Rightarrow> error option \<times> timer" where
  "pause_timer lib now st =
     (if \<not> timer_running st then (Some NotRunning, st)
      else (case start_time st of
              None \<Rightarrow> (Some TypeError, st)
            | Some s \<Rightarrow>
                (None, st\<lparr>elapsed_time := fl lib (elapsed_time st + fl lib (now - s)),
                          timer_running := False\<rparr>)))"

definition resume_timer :: "real \<Rightarrow> timer \<Rightarrow> error option \<times> timer" where
  "resume_timer now st =
     (if timer_running st then (Some AlreadyRunning, st)
      else (None, st\<lparr>start_time := Some now, timer_running := True\<rparr>))"

section \<open>Data persistence\<close>

text \<open>
  The content of \<open>time_records.json\<close>, \<open>None\<close> while the file does not exist.
  \<open>open(DATA_FILE, "w")\<close> leaves an empty file; each chunk \<open>json.dump\<close> writes is appended.
\<close>

type_synonym data_file = "string option"

definition load_records :: "pylib \<Rightarrow> data_file \<Rightarrow> error + time_record list" where
  "load_records lib f =
     (case f of
        None \<Rightarrow> Inr []
      | Some s \<Rightarrow> (case json_load lib s of None \<Rightarrow> Inl CorruptStorage | Some rs \<Rightarrow> Inr rs))"

definition open_w :: "data_file \<Rightarrow> data_file" where
  "open_w f = Some []"

definition write_chunk :: "string \<Rightarrow> data_file \<Rightarrow> data_file" where
  "write_chunk c f = (case f of None \<Rightarrow> Some c | Some s \<Rightarrow> Some (s @ c))"

text \<open>
  \<open>save_records\<close> as the sequence of its effects on the file, and the file after the first
  \<open>n\<close> of them: where the process stops between two of them, that is what the disk holds.
\<close>

definition save_records_steps :: "pylib \<Rightarrow> time_record list \<Rightarrow> (data_file \<Rightarrow> data_file) list" where
  "save_records_steps lib records = open_w # map write_chunk (json_dump lib records)"

definition run_steps :: "(data_file \<Rightarrow> data_file) list \<Rightarrow> data_file \<Rightarrow> data_file" where
  "run_steps steps f = fold (\<lambda>step g. step g) steps f"

definition save_records_upto :: "nat \<Rightarrow> pylib \<Rightarrow> time_record list \<Rightarrow> data_file \<Rightarrow> data_file" where
  "save_records_upto n lib records f = run_steps (take n (save_records_steps lib records)) f"

definition save_records :: "pylib \<Rightarrow> time_record list \<Rightarrow> data_file \<Rightarrow> data_file" where
  "save_records lib records f = run_steps (save_records_steps lib records) f"

text \<open>
  \<open>save_time_record\<close>: the file is read first, then the new record is built; with no start
  datetime, \<open>None.isoformat()\<close> raises before anything is written.
\<close>

definition save_time_record ::
  "pylib \<Rightarrow> datetime option \<Rightarrow> datetime \<Rightarrow> real \<Rightarrow> string \<Rightarrow> data_file \<Rightarrow> error + data_file" where
  "save_time_record lib start_dt end_time_dt elapsed_seconds comment f =
     (case load_records lib f of
        Inl e \<Rightarrow> Inl e
      | Inr records \<Rightarrow>
          (case start_dt of
             None \<Rightarrow> Inl AttributeError
           | Some dt \<Rightarrow>
               (let new_record =
                      [(''start_time'', PStr (isoformat dt)),
                       (''end_time'', PStr (isoformat end_time_dt)),
                       (''elapsed'', PFloat elapsed_seconds),
                       (''comment'', PStr comment)]
                in Inr (save_records lib (records @ [new_record]) f))))"

text \<open>
  \<open>stop_timer\<close>. \<open>answer\<close> is what \<open>askstring\<close> returned (\<open>None\<close> when the dialog was
  closed). An exception out of \<open>save_time_record\<close> leaves the fields as they were at the
  call: the reset below it is not reached.
\<close>

definition stop_timer ::
  "pylib \<Rightarrow> real \<Rightarrow> string option \<Rightarrow> datetime \<Rightarrow> timer \<times> data_file
     \<Rightarrow> error option \<times> timer \<times> data_file" where
  "stop_timer lib now answer now_dt w =
     (let st = fst w; f = snd w in
      if \<not> timer_running st \<and> elapsed_time st = 0 then (Some NoActiveSession, st, f)
      else if timer_running st \<and> start_time st = None then (Some TypeError, st, f)
      else
        (let st1 = (if timer_running st
                    then st\<lparr>elapsed_time :=
                              fl lib (elapsed_time st + fl lib (now - the (start_time st))),
                            timer_running := False\<rparr>
                    else st);
             comment = (case answer of None \<Rightarrow> [] | Some c \<Rightarrow> c)
         in case save_time_record lib (start_time_dt st1) now_dt (elapsed_time st1) comment f of
              Inl e \<Rightarrow> (Some e, st1, f)
            | Inr f' \<Rightarrow>
                (None, st1\<lparr>elapsed_time := 0, start_time := None, start_time_dt := None\<rparr>, f')))"

section \<open>Editing\<close>

text \<open>
  \<open>save_changes\<close>, the handler of the edit dialog's Save button. \<open>index\<close> is the selected row of
  the list box and \<open>edit_window_records\<close> the list loaded when the window was opened;
  \<open>edit_selected_record\<close> has already read \<open>edit_window_records[index]\<close>, which raises
  \<open>IndexError\<close> out of range. The three texts are what the entry fields hold.
\<close>

definition save_changes ::
  "pylib \<Rightarrow> string \<Rightarrow> string \<Rightarrow> string \<Rightarrow> nat \<Rightarrow> time_record list \<times> data_file
     \<Rightarrow> error option \<times> time_record list \<times> data_file" where
  "save_changes lib new_start new_end new_comment index w =
     (let edit_window_records = fst w; f = snd w in
      if length edit_window_records \<le> index then (Some IndexError, edit_window_records, f)
      else
        (case strptime_datetime lib new_start of
           None \<Rightarrow> (Some InvalidFormat, edit_window_records, f)
         | Some dt_start \<Rightarrow>
             (case strptime_datetime lib new_end of
                None \<Rightarrow> (Some InvalidFormat, edit_window_records, f)
              | Some dt_end \<Rightarrow>
                  if datetime_less dt_end dt_start
                  then (Some EndBeforeStart, edit_window_records, f)
                  else
                    (let elapsed = total_seconds lib dt_end dt_start;
                         r0 = edit_window_records ! index;
                         r1 = setitem r0 ''start_time'' (PStr (isoformat dt_start));
                         r2 = setitem r1 ''end_time'' (PStr (isoformat dt_end));
                         r3 = setitem r2 ''elapsed'' (PFloat elapsed);
                         r4 = setitem r3 ''comment'' (PStr new_comment);
                         records = edit_window_records[index := r4]
                     in (None, records, save_records lib records f)))))"

section \<open>Export\<close>

text \<open>\<open>datetime.fromisoformat(v)\<close> on a stored value: anything but a string is a \<open>TypeError\<close>.\<close>

definition py_fromisoformat :: "pylib \<Rightarrow> pyval \<Rightarrow> error + datetime" where
  "py_fromisoformat lib v =
     (case v of
        PStr s \<Rightarrow> (case fromisoformat lib s of None \<Rightarrow> Inl ValueError | Some dt \<Rightarrow> Inr dt)
      | _ \<Rightarrow> Inl TypeError)"

text \<open>
  The loop that fills \<open>filtered\<close>. Its handler catches \<open>ValueError\<close> and \<open>KeyError\<close> and goes
  on with the next record; any other exception leaves the method.
\<close>

fun filter_loop ::
  "pylib \<Rightarrow> date \<Rightarrow> date \<Rightarrow> time_record list \<Rightarrow> time_record list \<Rightarrow> error + time_record list" where
  "filter_loop lib start_date end_date filtered [] = Inr filtered"
| "filter_loop lib start_date end_date filtered (r # records) =
     (case getitem r ''start_time'' of
        Inl e \<Rightarrow> filter_loop lib start_date end_date filtered records
      | Inr v \<Rightarrow>
          (case py_fromisoformat lib v of
             Inl e \<Rightarrow>
               (if e = ValueError \<or> e = KeyError
                then filter_loop lib start_date end_date filtered records
                else Inl e)
           | Inr dt \<Rightarrow>
               (let dt_start = date_of dt in
                if date_le start_date dt_start \<and> date_le dt_start end_date
                then filter_loop lib start_date end_date (filtered @ [r]) records
                else filter_loop lib start_date end_date filtered records)))"

text \<open>
  \<open>sum(rec["elapsed"] for rec in filtered)\<close>. The generator reads \<open>rec["elapsed"]\<close> record by
  record, so the first record without the key (\<open>KeyError\<close>) or with a value that is no number
  (\<open>TypeError\<close> of \<open>+\<close>) ends the sum; \<open>bool\<close> is a subtype of \<open>int\<close>. On numbers, \<open>sum\<close> starts
  from the integer \<open>0\<close> and adds integers exactly; at the first float it adds that float to the
  integer total (the integer converted, the addition rounded) and goes on in floats, which is
  \<open>float_sum\<close> of the library. (Left out: integer totals beyond the range of a C \<open>long\<close>, after
  which CPython adds the floats that follow one by one whatever its version, and integers
  beyond the float range, whose conversion raises \<open>OverflowError\<close>.)
\<close>

fun as_number :: "pyval \<Rightarrow> (int + real) option" where
  "as_number (PInt i) = Some (Inl i)"
| "as_number (PBool b) = Some (Inl (if b then 1 else 0))"
| "as_number (PFloat x) = Some (Inr x)"
| "as_number v = None"

fun elapsed_numbers :: "time_record list \<Rightarrow> error + (int + real) list" where
  "elapsed_numbers [] = Inr []"
| "elapsed_numbers (r # filtered) =
     (case getitem r ''elapsed'' of
        Inl e \<Rightarrow> Inl e
      | Inr v \<Rightarrow>
          (case as_number v of
             None \<Rightarrow> Inl TypeError
           | Some n \<Rightarrow>
               (case elapsed_numbers filtered of
                  Inl e \<Rightarrow> Inl e
                | Inr ns \<Rightarrow> Inr (n # ns))))"

fun sum_numbers :: "pylib \<Rightarrow> int \<Rightarrow> (int + real) list \<Rightarrow> int + real" where
  "sum_numbers lib a [] = Inl a"
| "sum_numbers lib a (Inl b # ns) = sum_numbers lib (a + b) ns"
| "sum_numbers lib a (Inr y # ns) =
     Inr (float_sum lib (fl lib (fl lib (real_of_int a) + y)) ns)"

text \<open>\<open>total_seconds / 3600\<close>: true division, one rounding.\<close>

fun truediv_3600 :: "pylib \<Rightarrow> int + real \<Rightarrow> real" where
  "truediv_3600 lib (Inl a) = fl lib (real_of_int a / 3600)"
| "truediv_3600 lib (Inr x) = fl lib (x / 3600)"

fun number_cell :: "int + real \<Rightarrow> pyval" where
  "number_cell (Inl a) = PInt a"
| "number_cell (Inr x) = PFloat x"

text \<open>
  The format \<open>.2f\<close>: the decimal with two places nearest to the float, ties to the even
  neighbour. (A float has its exact value, so this rounding is the only one.)
\<close>

definition round_half_even :: "real \<Rightarrow> int" where
  "round_half_even x =
     (let f = \<lfloor>x\<rfloor>; r = x - real_of_int f in
      if r < 1 / 2 then f else if 1 / 2 < r then f + 1 else if even f then f else f + 1)"

fun decimal :: "nat \<Rightarrow> string" where
  "decimal n = (if n < 10 then [digit n] else decimal (n div 10) @ [digit n])"

declare decimal.simps [simp del]

definition format_2f :: "real \<Rightarrow> string" where
  "format_2f x =
     (let c = nat (round_half_even (\<bar>x\<bar> * 100)) in
      (if x < 0 then ''-'' else []) @ decimal (c div 100) @ ''.'' @ d2 (c mod 100))"

text \<open>The rows appended to the worksheet, in order.\<close>

definition headers :: "string list" where
  "headers = [''Start Time'', ''End Time'', ''Elapsed (seconds)'', ''Comment'']"

definition record_row :: "time_record \<Rightarrow> pyval list" where
  "record_row r =
     [get_default r ''start_time'' (PStr []), get_default r ''end_time'' (PStr []),
      get_default r ''elapsed'' (PStr []), get_default r ''comment'' (PStr [])]"

text \<open>
  \<open>export_data_to_excel\<close>, up to the call of \<open>wb.save\<close>: the result is the sheet handed to the
  workbook writer, or the exception raised before it.
\<close>

definition export_data_to_excel ::
  "pylib \<Rightarrow> string \<Rightarrow> string \<Rightarrow> data_file \<Rightarrow> error + pyval list list" where
  "export_data_to_excel lib start_date_str end_date_str f =
     (case load_records lib f of
        Inl e \<Rightarrow> Inl e
      | Inr records \<Rightarrow>
          (case strptime_date lib start_date_str of
             None \<Rightarrow> Inl InvalidDateFormat
           | Some sd \<Rightarrow>
               (case strptime_date lib end_date_str of
                  None \<Rightarrow> Inl InvalidDateFormat
                | Some ed \<Rightarrow>
                    (case filter_loop lib (date_of sd) (date_of ed) [] records of
                       Inl e \<Rightarrow> Inl e
                     | Inr filtered \<Rightarrow>
                         if filtered = [] then Inl NoRecordsInRange
                         else
                           (case elapsed_numbers filtered of
                              Inl e \<Rightarrow> Inl e
                            | Inr ns \<Rightarrow>
                                (let total_secs = sum_numbers lib 0 ns;
                                     total_hours = truediv_3600 lib total_secs in
                                 Inr (map PStr headers # map record_row filtered @
                                      [replicate (length headers) (PStr []),
                                       [PStr [], PStr [], number_cell total_secs,
                                        PStr ''TOTAL SECONDS''],
                                       [PStr [], PStr [], PStr (format_2f total_hours),
                                        PStr ''TOTAL HOURS'']])))))))"

section \<open>An instance of the library\<close>

text \<open>
  To run the program on concrete inputs the library needs an instance. \<open>ref_lib\<close> computes in
  exact arithmetic (\<open>fl\<close> is the identity, which is what binary64 does wherever the exact
  result is a float, as in every example it is used for), parses the zero-padded forms
  \<open>YYYY-MM-DD\<close>, \<open>YYYY-MM-DD HH:MM:SS\<close> and what \<open>isoformat\<close> prints, and reads and writes JSON
  lists of flat objects, laid out as \<open>json.dump\<close> with \<open>indent=4\<close> lays them out. On these
  inputs it returns what CPython returns; no theorem about the program depends on it.
\<close>

definition is_digit :: "char \<Rightarrow> bool" where
  "is_digit c \<longleftrightarrow> 48 \<le> (of_char c :: nat) \<and> (of_char c :: nat) \<le> 57"

definition nat_of_digits :: "string \<Rightarrow> nat option" where
  "nat_of_digits s =
     (if s \<noteq> [] \<and> list_all is_digit s
      then Some (foldl (\<lambda>n c. 10 * n + (of_char c - 48)) 0 s) else None)"

definition days_in_month :: "nat \<Rightarrow> nat \<Rightarrow> nat" where
  "days_in_month y m =
     (if m = 2 \<and> is_leap y then 29
      else [31, 28, 31, 30, 31, 30, 31, 31, 30, 31, 30, 31] ! (m - 1))"

definition at_time :: "date \<Rightarrow> nat \<Rightarrow> nat \<Rightarrow> nat \<Rightarrow> nat \<Rightarrow> datetime" where
  "at_time d h mi s us =
     \<lparr>year = year d, month = month d, day = day d,
      hour = h, minute = mi, second = s, microsecond = us\<rparr>"

definition parse_date :: "string \<Rightarrow> date option" where
  "parse_date s =
     (if length s = 10 \<and> s ! 4 = CHR ''-'' \<and> s ! 7 = CHR ''-''
      then (case (nat_of_digits (take 4 s), nat_of_digits (take 2 (drop 5 s)),
                  nat_of_digits (drop 8 s)) of
              (Some y, Some m, Some d) \<Rightarrow>
                if 1 \<le> y \<and> 1 \<le> m \<and> m \<le> 12 \<and> 1 \<le> d \<and> d \<le> days_in_month y m
                then Some \<lparr>year = y, month = m, day = d\<rparr> else None
            | _ \<Rightarrow> None)
      else None)"

definition parse_time :: "string \<Rightarrow> (nat \<times> nat \<times> nat) option" where
  "parse_time s =
     (if length s = 8 \<and> s ! 2 = CHR '':'' \<and> s ! 5 = CHR '':''
      then (case (nat_of_digits (take 2 s), nat_of_digits (take 2 (drop 3 s)),
                  nat_of_digits (drop 6 s)) of
              (Some h, Some mi, Some sec) \<Rightarrow>
                if h \<le> 23 \<and> mi \<le> 59 \<and> sec \<le> 59 then Some (h, mi, sec) else None
            | _ \<Rightarrow> None)
      else None)"

definition parse_datetime :: "char list \<Rightarrow> string \<Rightarrow> datetime option" where
  "parse_datetime seps s =
     (if length s = 19 \<and> s ! 10 \<in> set seps
      then (case (parse_date (take 10 s), parse_time (drop 11 s)) of
              (Some d, Some (h, mi, sec)) \<Rightarrow> Some (at_time d h mi sec 0)
            | _ \<Rightarrow> None)
      else None)"

definition ref_strptime_date :: "string \<Rightarrow> datetime option" where
  "ref_strptime_date s = map_option (\<lambda>d. at_time d 0 0 0 0) (parse_date s)"

definition ref_fromisoformat :: "string \<Rightarrow> datetime option" where
  "ref_fromisoformat s =
     (if length s = 10 then ref_strptime_date s
      else if length s = 19 then parse_datetime ''T '' s
      else if length s = 26 \<and> s ! 19 = CHR ''.''
      then (case (parse_datetime ''T '' (take 19 s), nat_of_digits (drop 20 s)) of
              (Some dt, Some us) \<Rightarrow> Some (dt\<lparr>microsecond := us\<rparr>)
            | _ \<Rightarrow> None)
      else None)"

definition hex_digit :: "nat \<Rightarrow> char" where
  "hex_digit n = ''0123456789abcdef'' ! (n mod 16)"

definition escape_char :: "char \<Rightarrow> string" where
  "escape_char c =
     (let n = (of_char c :: nat) in
      if c = CHR 0x22 then [CHR 0x5C, CHR 0x22]
      else if c = CHR 0x5C then [CHR 0x5C, CHR 0x5C]
      else if c = CHR 0x0A then [CHR 0x5C, CHR ''n'']
      else if c = CHR 0x0D then [CHR 0x5C, CHR ''r'']
      else if c = CHR 0x09 then [CHR 0x5C, CHR ''t'']
      else if c = CHR 0x08 then [CHR 0x5C, CHR ''b'']
      else if c = CHR 0x0C then [CHR 0x5C, CHR ''f'']
      else if n < 32 \<or> 127 \<le> n
      then [CHR 0x5C, CHR ''u'', CHR ''0'', CHR ''0'', hex_digit (n div 16), hex_digit n]
      else [c])"

definition json_string :: "string \<Rightarrow> string" where
  "json_string s = [CHR 0x22] @ concat (map escape_char s) @ [CHR 0x22]"

fun fraction_digits :: "nat \<Rightarrow> real \<Rightarrow> string" where
  "fraction_digits 0 r = []"
| "fraction_digits (Suc n) r =
     (if r = 0 then []
      else (let d = \<lfloor>r * 10\<rfloor> in digit (nat d) # fraction_digits n (r * 10 - real_of_int d)))"

definition float_repr :: "real \<Rightarrow> string" where
  "float_repr x =
     (let a = \<bar>x\<bar>; r = a - real_of_int \<lfloor>a\<rfloor> in
      (if x < 0 then ''-'' else []) @ decimal (nat \<lfloor>a\<rfloor>) @ ''.'' @
      (if r = 0 then ''0'' else fraction_digits 17 r))"

fun json_scalar :: "pyval \<Rightarrow> string" where
  "json_scalar PNone = ''null''"
| "json_scalar (PBool b) = (if b then ''true'' else ''false'')"
| "json_scalar (PInt i) = (if i < 0 then ''-'' else []) @ decimal (nat \<bar>i\<bar>)"
| "json_scalar (PFloat x) = float_repr x"
| "json_scalar (PStr s) = json_string s"

definition newline_indent :: "nat \<Rightarrow> string" where
  "newline_indent level = CHR 0x0A # replicate (4 * level) CHR '' ''"

fun item_chunks :: "bool \<Rightarrow> time_record \<Rightarrow> string list" where
  "item_chunks first [] = []"
| "item_chunks first (kv # r) =
     (if first then [] else ['','' @ newline_indent 2]) @
     [json_string (fst kv), '': '', json_scalar (snd kv)] @ item_chunks False r"

definition dict_chunks :: "time_record \<Rightarrow> string list" where
  "dict_chunks r =
     (if r = [] then [''{}'']
      else [''{'', newline_indent 2] @ item_chunks True r @ [newline_indent 1, ''}''])"

fun element_chunks :: "bool \<Rightarrow> time_record list \<Rightarrow> string list" where
  "element_chunks first [] = []"
| "element_chunks first (r # rs) =
     [(if first then ''['' else '','') @ newline_indent 1] @ dict_chunks r @
     element_chunks False rs"

definition ref_json_dump :: "time_record list \<Rightarrow> string list" where
  "ref_json_dump rs =
     (if rs = [] then [''[]''] else element_chunks True rs @ [newline_indent 0, '']''])"

datatype token = LBracket | RBracket | LBrace | RBrace | Comma | Colon | Scalar pyval

datatype lexmode = Plain | InString string | InEscape string | InNumber string | InWord string

definition is_letter :: "char \<Rightarrow> bool" where
  "is_letter c \<longleftrightarrow> (let n = (of_char c :: nat) in (65 \<le> n \<and> n \<le> 90) \<or> (97 \<le> n \<and> n \<le> 122))"

definition plain_char :: "char \<Rightarrow> token list \<Rightarrow> (lexmode \<times> token list) option" where
  "plain_char c acc =
     (if c = CHR ''['' then Some (Plain, LBracket # acc)
      else if c = CHR '']'' then Some (Plain, RBracket # acc)
      else if c = CHR ''{'' then Some (Plain, LBrace # acc)
      else if c = CHR ''}'' then Some (Plain, RBrace # acc)
      else if c = CHR '','' then Some (Plain, Comma # acc)
      else if c = CHR '':'' then Some (Plain, Colon # acc)
      else if c = CHR 0x22 then Some (InString [], acc)
      else if c = CHR '' '' \<or> c = CHR 0x0A \<or> c = CHR 0x0D \<or> c = CHR 0x09 then Some (Plain, acc)
      else if is_digit c \<or> c = CHR ''-'' then Some (InNumber [c], acc)
      else if is_letter c then Some (InWord [c], acc)
      else None)"

definition unescape :: "char \<Rightarrow> char option" where
  "unescape c =
     (if c = CHR 0x22 \<or> c = CHR 0x5C \<or> c = CHR ''/'' then Some c
      else if c = CHR ''n'' then Some (CHR 0x0A)
      else if c = CHR ''r'' then Some (CHR 0x0D)
      else if c = CHR ''t'' then Some (CHR 0x09)
      else if c = CHR ''b'' then Some (CHR 0x08)
      else if c = CHR ''f'' then Some (CHR 0x0C)
      else None)"

definition number_of :: "string \<Rightarrow> pyval option" where
  "number_of s =
     (let neg = (s \<noteq> [] \<and> hd s = CHR ''-'');
          body = (if neg then tl s else s);
          whole = takeWhile is_digit body;
          rest = dropWhile is_digit body in
      case nat_of_digits whole of
        None \<Rightarrow> None
      | Some w \<Rightarrow>
          if rest = [] then Some (PInt (if neg then - int w else int w))
          else if hd rest = CHR ''.''
          then (case nat_of_digits (tl rest) of
                  None \<Rightarrow> None
                | Some fr \<Rightarrow>
                    (let x = real w + real fr / 10 ^ length (tl rest)
                     in Some (PFloat (if neg then - x else x))))
          else None)"

definition word_of :: "string \<Rightarrow> pyval option" where
  "word_of w =
     (if w = ''null'' then Some PNone
      else if w = ''true'' then Some (PBool True)
      else if w = ''false'' then Some (PBool False)
      else None)"

definition push_scalar :: "pyval option \<Rightarrow> token list \<Rightarrow> token list option" where
  "push_scalar v acc = map_option (\<lambda>x. Scalar x # acc) v"

fun lexer :: "lexmode \<Rightarrow> token list \<Rightarrow> string \<Rightarrow> token list option" where
  "lexer Plain acc [] = Some (rev acc)"
| "lexer (InString s) acc [] = None"
| "lexer (InEscape s) acc [] = None"
| "lexer (InNumber d) acc [] = map_option rev (push_scalar (number_of d) acc)"
| "lexer (InWord w) acc [] = map_option rev (push_scalar (word_of w) acc)"
| "lexer Plain acc (c # cs) =
     (case plain_char c acc of None \<Rightarrow> None | Some (m, acc') \<Rightarrow> lexer m acc' cs)"
| "lexer (InString s) acc (c # cs) =
     (if c = CHR 0x22 then lexer Plain (Scalar (PStr s) # acc) cs
      else if c = CHR 0x5C then lexer (InEscape s) acc cs
      else lexer (InString (s @ [c])) acc cs)"
| "lexer (InEscape s) acc (c # cs) =
     (case unescape c of None \<Rightarrow> None | Some d \<Rightarrow> lexer (InString (s @ [d])) acc cs)"
| "lexer (InNumber d) acc (c # cs) =
     (if is_digit c \<or> c = CHR ''.'' then lexer (InNumber (d @ [c])) acc cs
      else (case push_scalar (number_of d) acc of
              None \<Rightarrow> None
            | Some acc' \<Rightarrow>
                (case plain_char c acc' of None \<Rightarrow> None | Some (m, acc'') \<Rightarrow> lexer m acc'' cs)))"
| "lexer (InWord w) acc (c # cs) =
     (if is_letter c then lexer (InWord (w @ [c])) acc cs
      else (case push_scalar (word_of w) acc of
              None \<Rightarrow> None
            | Some acc' \<Rightarrow>
                (case plain_char c acc' of None \<Rightarrow> None | Some (m, acc'') \<Rightarrow> lexer m acc'' cs)))"

datatype pstate =
  Start | ArrayOpen | ElementEnd | ElementNext | ObjectOpen | KeyEnd string | ColonEnd string
  | FieldEnd | FieldNext | Done

definition parser_step ::
  "pstate \<Rightarrow> token \<Rightarrow> time_record list \<Rightarrow> time_record
     \<Rightarrow> (pstate \<times> time_record list \<times> time_record) option" where
  "parser_step st t rs r =
     (case st of
        Start \<Rightarrow> (case t of LBracket \<Rightarrow> Some (ArrayOpen, rs, r) | _ \<Rightarrow> None)
      | ArrayOpen \<Rightarrow>
          (case t of RBracket \<Rightarrow> Some (Done, rs, r) | LBrace \<Rightarrow> Some (ObjectOpen, rs, [])
           | _ \<Rightarrow> None)
      | ElementNext \<Rightarrow> (case t of LBrace \<Rightarrow> Some (ObjectOpen, rs, []) | _ \<Rightarrow> None)
      | ElementEnd \<Rightarrow>
          (case t of Comma \<Rightarrow> Some (ElementNext, rs, r) | RBracket \<Rightarrow> Some (Done, rs, r)
           | _ \<Rightarrow> None)
      | ObjectOpen \<Rightarrow>
          (case t of RBrace \<Rightarrow> Some (ElementEnd, rs @ [r], [])
           | Scalar (PStr k) \<Rightarrow> Some (KeyEnd k, rs, r) | _ \<Rightarrow> None)
      | FieldNext \<Rightarrow> (case t of Scalar (PStr k) \<Rightarrow> Some (KeyEnd k, rs, r) | _ \<Rightarrow> None)
      | KeyEnd k \<Rightarrow> (case t of Colon \<Rightarrow> Some (ColonEnd k, rs, r) | _ \<Rightarrow> None)
      | ColonEnd k \<Rightarrow> (case t of Scalar v \<Rightarrow> Some (FieldEnd, rs, setitem r k v) | _ \<Rightarrow> None)
      | FieldEnd \<Rightarrow>
          (case t of Comma \<Rightarrow> Some (FieldNext, rs, r)
           | RBrace \<Rightarrow> Some (ElementEnd, rs @ [r], []) | _ \<Rightarrow> None)
      | Done \<Rightarrow> None)"

fun parser :: "pstate \<Rightarrow> time_record list \<Rightarrow> time_record \<Rightarrow> token list \<Rightarrow> time_record list option" where
  "parser st rs r [] = (if st = Done then Some rs else None)"
| "parser st rs r (t # ts) =
     (case parser_step st t rs r of
        None \<Rightarrow> None
      | Some (st', rs', r') \<Rightarrow> parser st' rs' r' ts)"

definition ref_json_load :: "string \<Rightarrow> time_record list option" where
  "ref_json_load s = (case lexer Plain [] s of None \<Rightarrow> None | Some ts \<Rightarrow> parser Start [] [] ts)"

text \<open>
  The float loop of \<open>sum\<close> in CPython up to 3.11, over a rounding \<open>rnd\<close>: an integer is
  converted, every addition is rounded.
\<close>

fun to_float :: "(real \<Rightarrow> real) \<Rightarrow> int + real \<Rightarrow> real" where
  "to_float rnd (Inl b) = rnd (real_of_int b)"
| "to_float rnd (Inr y) = y"

fun fold_sum :: "(real \<Rightarrow> real) \<Rightarrow> real \<Rightarrow> (int + real) list \<Rightarrow> real" where
  "fold_sum rnd x [] = x"
| "fold_sum rnd x (n # ns) = fold_sum rnd (rnd (x + to_float rnd n)) ns"

definition ref_lib :: pylib where
  "ref_lib =
     \<lparr>fl = (\<lambda>x. x),
      strptime_datetime = parse_datetime '' '',
      strptime_date = ref_strptime_date,
      fromisoformat = ref_fromisoformat,
      json_load = ref_json_load,
      json_dump = ref_json_dump,
      float_sum = fold_sum (\<lambda>x. x)\<rparr>"

subsection \<open>Instances with binary64 arithmetic\<close>

text \<open>
  \<open>fl64 x\<close> is the binary64 number nearest to \<open>x\<close>, ties to the even significand: the
  exponent \<open>e\<close> puts \<open>\<bar>x\<bar> / 2 ^ e\<close> between \<open>2 ^ 52\<close> and \<open>2 ^ 53\<close>, where the significand is
  rounded to an integer. It covers the normal range (no subnormal numbers, no overflow), by
  far enough for seconds and hours.
\<close>

fun binade :: "nat \<Rightarrow> real \<Rightarrow> int" where
  "binade 0 a = 0"
| "binade (Suc n) a =
     (if a < 4503599627370496 then binade n (2 * a) - 1
      else if 9007199254740992 \<le> a then binade n (a / 2) + 1
      else 0)"

definition scaled :: "real \<Rightarrow> int \<Rightarrow> real" where
  "scaled a e = (if 0 \<le> e then a * 2 ^ nat e else a / 2 ^ nat (- e))"

definition fl64 :: "real \<Rightarrow> real" where
  "fl64 x =
     (if x = 0 then 0
      else (let e = binade 2200 \<bar>x\<bar>;
                m = round_half_even (scaled \<bar>x\<bar> (- e))
            in sgn x * scaled (real_of_int m) e))"

text \<open>
  The float loop of \<open>sum\<close> from CPython 3.12 on: \<open>c\<close> collects the rounding errors of the
  additions of floats and is added at the end; an integer is converted and added as before.
  (An integer beyond the range of a C \<open>long\<close>, which ends this loop, is left out.)
\<close>

fun neumaier_sum :: "(real \<Rightarrow> real) \<Rightarrow> real \<Rightarrow> real \<Rightarrow> (int + real) list \<Rightarrow> real" where
  "neumaier_sum rnd x c [] = (if c = 0 then x else rnd (x + c))"
| "neumaier_sum rnd x c (Inl b # ns) = neumaier_sum rnd (rnd (x + rnd (real_of_int b))) c ns"
| "neumaier_sum rnd x c (Inr y # ns) =
     (let t = rnd (x + y);
          d = (if \<bar>y\<bar> \<le> \<bar>x\<bar> then rnd (rnd (x - t) + y) else rnd (rnd (y - t) + x))
      in neumaier_sum rnd t (rnd (c + d)) ns)"

text \<open>\<open>json.load\<close> turns a decimal numeral with a fraction into the nearest float.\<close>

fun to_binary64 :: "pyval \<Rightarrow> pyval" where
  "to_binary64 (PFloat x) = PFloat (fl64 x)"
| "to_binary64 v = v"

definition binary64_json_load :: "string \<Rightarrow> time_record list option" where
  "binary64_json_load s =
     map_option (map (map (\<lambda>kv. (fst kv, to_binary64 (snd kv))))) (ref_json_load s)"

text \<open>
  The library of CPython up to 3.11 and from 3.12 on, as far as the export goes: binary64
  rounding, \<open>json.load\<close> reading floats, and the float loop of \<open>sum\<close> of either version. The
  parsers are those of \<open>ref_lib\<close>; so is \<open>json_dump\<close>, which the export does not call (the
  shortest representation that CPython prints for a float is not modelled).
\<close>

definition py311_lib :: pylib where
  "py311_lib = ref_lib\<lparr>fl := fl64, json_load := binary64_json_load, float_sum := fold_sum fl64\<rparr>"

definition py312_lib :: pylib where
  "py312_lib = py311_lib\<lparr>float_sum := (\<lambda>x ns. neumaier_sum fl64 x 0 ns)\<rparr>"

section \<open>States of the timer\<close>

text \<open>
  The program keeps no state variable; the states the specification names are read off the
  four fields. \<open>Idle\<close> is the state \<open>__init__\<close> sets up and the reset at the end of
  \<open>stop_timer\<close> restores. A session has been started when \<open>start_time_dt\<close> is set; it is
  \<open>Running\<close> or \<open>Paused\<close> as \<open>timer_running\<close> says.
\<close>

definition Idle :: "timer \<Rightarrow> bool" where
  "Idle st \<longleftrightarrow> st = init"

definition Running :: "timer \<Rightarrow> bool" where
  "Running st \<longleftrightarrow> timer_running st \<and> start_time st \<noteq> None \<and> start_time_dt st \<noteq> None"

definition Paused :: "timer \<Rightarrow> bool" where
  "Paused st \<longleftrightarrow> \<not> timer_running st \<and> start_time st \<noteq> None \<and> start_time_dt st \<noteq> None"

text \<open>
  The fields the timer can hold: those of \<open>__init__\<close>, and those any of the four buttons
  leaves behind, whatever the clocks read, the dialog returns and the file holds.
\<close>

inductive reachable :: "timer \<Rightarrow> bool" where
  at_init: "reachable init"
| by_start: "reachable st \<Longrightarrow> reachable (snd (start_timer now_dt now st))"
| by_pause: "reachable st \<Longrightarrow> reachable (snd (pause_timer lib now st))"
| by_resume: "reachable st \<Longrightarrow> reachable (snd (resume_timer now st))"
| by_stop: "reachable st \<Longrightarrow> reachable (fst (snd (stop_timer lib now answer now_dt (st, f))))"

subsection \<open>Sample runs\<close>

text \<open>
  A session started on 2025-01-01 at 09:00:00 with the clock at 100 s; the same session paused
  five seconds later; and the same session paused while the clock still reads 100 s.
\<close>

definition on_2025_01_01 :: "nat \<Rightarrow> nat \<Rightarrow> nat \<Rightarrow> datetime" where
  "on_2025_01_01 h mi s = at_time \<lparr>year = 2025, month = 1, day = 1\<rparr> h mi s 0"

definition running_example :: timer where
  "running_example = snd (start_timer (on_2025_01_01 9 0 0) 100 init)"

definition paused_example :: timer where
  "paused_example = snd (pause_timer ref_lib 105 running_example)"

definition paused_at_once :: timer where
  "paused_at_once = snd (pause_timer ref_lib 100 running_example)"

section \<open>The export filter, as the specification words it\<close>

text \<open>
  The calendar date of a record's start, where the record has a \<open>start_time\<close> that is a string
  and parses; a record is in range when that date lies between the two given dates, both
  included. \<open>start_time_is_text\<close> is the typing of the stored format: a \<open>start_time\<close>, where
  present, is a string.
\<close>

definition start_date :: "pylib \<Rightarrow> time_record \<Rightarrow> date option" where
  "start_date lib r =
     (case map_of r ''start_time'' of
        Some (PStr s) \<Rightarrow> map_option date_of (fromisoformat lib s)
      | _ \<Rightarrow> None)"

definition in_range :: "pylib \<Rightarrow> date \<Rightarrow> date \<Rightarrow> time_record \<Rightarrow> bool" where
  "in_range lib start_date' end_date r =
     (case start_date lib r of
        None \<Rightarrow> False
      | Some d \<Rightarrow> date_le start_date' d \<and> date_le d end_date)"

definition start_time_is_text :: "time_record \<Rightarrow> bool" where
  "start_time_is_text r =
     (case map_of r ''start_time'' of
        None \<Rightarrow> True
      | Some v \<Rightarrow> (case v of PStr s \<Rightarrow> True | _ \<Rightarrow> False))"

subsection \<open>Sample records\<close>

text \<open>
  The two records of the specification's scenario, the file that holds them, and three
  entries of an older format: one without a start, one with a start late on the first day and
  no end, one whose start does not parse.
\<close>

definition example_records :: "time_record list" where
  "example_records =
     [[(''start_time'', PStr ''2025-01-01T09:00:00''), (''end_time'', PStr ''2025-01-01T10:30:00''),
       (''elapsed'', PInt 5400), (''comment'', PStr ''A'')],
      [(''start_time'', PStr ''2025-01-02T09:00:00''), (''end_time'', PStr ''2025-01-02T09:15:00''),
       (''elapsed'', PInt 900), (''comment'', PStr ''B'')]]"

definition legacy_records :: "time_record list" where
  "legacy_records =
     [[(''id'', PInt 1), (''comment'', PStr ''no start'')],
      [(''start_time'', PStr ''2025-01-01T23:59:59''), (''elapsed'', PInt 60)],
      [(''start_time'', PStr ''yesterday''), (''elapsed'', PInt 60)]]"

definition jan_1 :: date where
  "jan_1 = \<lparr>year = 2025, month = 1, day = 1\<rparr>"

definition jan_2 :: date where
  "jan_2 = \<lparr>year = 2025, month = 1, day = 2\<rparr>"

definition example_file :: data_file where
  "example_file = Some (concat (json_dump ref_lib example_records))"

text \<open>The scenario's list after its second record has been deleted.\<close>

definition first_record_only :: "time_record list" where
  "first_record_only = [hd example_records]"




definition null_start_records :: "time_record list" where
  "null_start_records =
     [hd example_records,
      [(''start_time'', PNone), (''end_time'', PNone), (''elapsed'', PInt 60),
       (''comment'', PStr ''legacy'')]]"

definition null_start_file :: data_file where
  "null_start_file = Some (concat (json_dump ref_lib null_start_records))"

section \<open>The totals, as the specification words them\<close>







section \<open>The timer\<close>

lemma running_example_eq:
  "running_example = \<lparr>timer_running = True, start_time = Some 100,
      start_time_dt = Some (on_2025_01_01 9 0 0), elapsed_time = 0\<rparr>"
  by (simp add: running_example_def start_timer_def init_def)

lemma paused_example_eq:
  "paused_example = \<lparr>timer_running = False, start_time = Some 100,
      start_time_dt = Some (on_2025_01_01 9 0 0), elapsed_time = 5\<rparr>"
  by (simp add: paused_example_def running_example_eq pause_timer_def ref_lib_def)

lemma paused_at_once_eq:
  "paused_at_once = \<lparr>timer_running = False, start_time = Some 100,
      start_time_dt = Some (on_2025_01_01 9 0 0), elapsed_time = 0\<rparr>"
  by (simp add: paused_at_once_def running_example_eq pause_timer_def ref_lib_def)

text \<open>
  While the timer runs, the clock reading of the open segment is set: the subtraction in
  \<open>pause_timer\<close> and \<open>stop_timer\<close> never meets \<open>None\<close>. The sample sessions, and the timer
  resumed without a session, are states the buttons lead to.
\<close>

lemma reachable_running_has_start:
  "reachable st \<Longrightarrow> timer_running st \<Longrightarrow> start_time st \<noteq> None"
proof (induction rule: reachable.induct)
  case at_init
  then show ?case by (simp add: init_def)
next
  case (by_start st now_dt now)
  then show ?case by (simp add: start_timer_def split: if_splits)
next
  case (by_pause st lib now)
  then show ?case by (simp add: pause_timer_def split: if_splits option.splits)
next
  case (by_resume st now)
  then show ?case by (simp add: resume_timer_def split: if_splits)
next
  case (by_stop st lib now answer now_dt f)
  then show ?case
    by (auto simp: stop_timer_def Let_def split: if_splits sum.splits)
qed

lemma reachable_running_example: "reachable running_example"
  unfolding running_example_def by (intro reachable.intros)

lemma reachable_paused_example: "reachable paused_example"
  unfolding paused_example_def by (intro reachable.intros reachable_running_example)

lemma reachable_paused_at_once: "reachable paused_at_once"
  unfolding paused_at_once_def by (intro reachable.intros reachable_running_example)

lemma reachable_resumed_from_idle: "reachable (snd (resume_timer now init))"
  by (intro reachable.intros)

text \<open>
  Claim C1, as the program has it. \<open>start_timer\<close> tests \<open>timer_running\<close> only. While a session
  is running it warns that the timer is already running and changes no field. While a session
  is paused nothing is running, so it starts over: the start datetime and the clock reading
  are taken anew, the accumulated seconds go back to zero and the timer runs.
\<close>

theorem start_timer_running_or_paused:
  "(Running st \<longrightarrow> start_timer now_dt now st = (Some AlreadyRunning, st)) \<and>
   (Paused st \<longrightarrow> start_timer now_dt now st =
      (None, \<lparr>timer_running = True, start_time = Some now,
              start_time_dt = Some now_dt, elapsed_time = 0\<rparr>))"
  by (simp add: Running_def Paused_def start_timer_def)

text \<open>Both cases on the sample session, ten seconds after its start.\<close>

theorem start_timer_running_or_paused_witness:
  "Running running_example \<and>
   start_timer (on_2025_01_01 9 0 10) 110 running_example = (Some AlreadyRunning, running_example) \<and>
   Paused paused_example \<and>
   start_timer (on_2025_01_01 9 0 10) 110 paused_example =
      (None, \<lparr>timer_running = True, start_time = Some 110,
              start_time_dt = Some (on_2025_01_01 9 0 10), elapsed_time = 0\<rparr>)"
  using start_timer_running_or_paused [of running_example "on_2025_01_01 9 0 10" 110]
        start_timer_running_or_paused [of paused_example "on_2025_01_01 9 0 10" 110]
  by (simp add: Running_def Paused_def running_example_eq paused_example_eq)

text \<open>
  Claim C1 as stated fails: on the paused sample session \<open>start_timer\<close> does not answer
  \<open>AlreadyRunning\<close> and does not leave the fields alone.
\<close>

theorem start_timer_paused_counterexample:
  "Paused paused_example \<and>
   start_timer (on_2025_01_01 9 0 10) 110 paused_example \<noteq> (Some AlreadyRunning, paused_example)"
  by (simp add: Paused_def paused_example_eq start_timer_def)

text \<open>
  \<open>resume_timer\<close> where a session exists: refused while it runs; from a pause a new segment
  begins at the clock reading and the accumulated seconds stay. \<open>pause_timer\<close> is refused
  whenever nothing runs.
\<close>

lemma resume_timer_running:
  "Running st \<Longrightarrow> resume_timer now st = (Some AlreadyRunning, st)"
  by (simp add: Running_def resume_timer_def)

lemma resume_timer_paused:
  "Paused st \<Longrightarrow>
   resume_timer now st = (None, st\<lparr>start_time := Some now, timer_running := True\<rparr>)"
  by (simp add: Paused_def resume_timer_def)

lemma pause_timer_not_running:
  "\<not> timer_running st \<Longrightarrow> pause_timer lib now st = (Some NotRunning, st)"
  by (simp add: pause_timer_def)

text \<open>
  Claim C2 at the input where the program departs from it: \<open>resume_timer\<close> on the idle timer
  reports nothing and sets the timer running, with no start datetime.
\<close>

theorem resume_timer_idle_runs:
  "Idle init \<and>
   resume_timer 100 init =
     (None, \<lparr>timer_running = True, start_time = Some 100, start_time_dt = None,
             elapsed_time = 0\<rparr>)"
  by (simp add: Idle_def init_def resume_timer_def)

text \<open>
  \<open>stop_timer\<close> where the file can be read. On the idle timer it warns and changes nothing.
  On a running session it commits the open segment; on a paused one with accumulated seconds
  other than zero it takes them as they are. In both it appends the record of the session
  (start, the current datetime as end, the accumulated seconds, the comment or the empty
  string) to the loaded list, saves the list and resets the four fields.
\<close>

lemma stop_timer_idle:
  "Idle st \<Longrightarrow> stop_timer lib now answer now_dt (st, f) = (Some NoActiveSession, st, f)"
  by (simp add: Idle_def init_def stop_timer_def)

lemma stop_timer_running:
  assumes "Running st" and "load_records lib f = Inr records"
  shows "stop_timer lib now answer now_dt (st, f) =
           (None, init,
            save_records lib
              (records @
               [[(''start_time'', PStr (isoformat (the (start_time_dt st)))),
                 (''end_time'', PStr (isoformat now_dt)),
                 (''elapsed'',
                  PFloat (fl lib (elapsed_time st + fl lib (now - the (start_time st))))),
                 (''comment'', PStr (case answer of None \<Rightarrow> [] | Some c \<Rightarrow> c))]]) f)"
  using assms
  by (auto simp: Running_def stop_timer_def save_time_record_def init_def Let_def)

lemma stop_timer_paused:
  assumes "Paused st" and "elapsed_time st \<noteq> 0" and "load_records lib f = Inr records"
  shows "stop_timer lib now answer now_dt (st, f) =
           (None, init,
            save_records lib
              (records @
               [[(''start_time'', PStr (isoformat (the (start_time_dt st)))),
                 (''end_time'', PStr (isoformat now_dt)),
                 (''elapsed'', PFloat (elapsed_time st)),
                 (''comment'', PStr (case answer of None \<Rightarrow> [] | Some c \<Rightarrow> c))]]) f)"
  using assms
  by (auto simp: Paused_def stop_timer_def save_time_record_def init_def Let_def)

text \<open>
  Claim C5 at the input where the program departs from it: a session paused while the clock
  still shows the reading of its start has accumulated exactly zero seconds, and \<open>stop_timer\<close>
  takes it for no session at all. Nothing is saved and the session stays as it was.
\<close>

theorem stop_timer_paused_at_once:
  "reachable paused_at_once \<and> Paused paused_at_once \<and>
   stop_timer ref_lib 130 (Some ''x'') (on_2025_01_01 9 0 30) (paused_at_once, None) =
     (Some NoActiveSession, paused_at_once, None)"
  using reachable_paused_at_once by (simp add: Paused_def paused_at_once_eq stop_timer_def)

text \<open>
  Claim C10. From the idle timer \<open>resume_timer\<close> sets the timer running and leaves
  \<open>start_time_dt\<close> unset. Where the file can be read, \<open>stop_timer\<close> then passes its guard,
  commits the open segment and calls \<open>save_time_record\<close> with no start datetime, which raises
  \<open>AttributeError\<close> on \<open>isoformat\<close>: no record is written, and the reset is not reached.
\<close>

theorem resume_from_idle_then_stop:
  assumes "Idle st" and "load_records lib f = Inr records"
  shows "resume_timer t1 st =
           (None, \<lparr>timer_running = True, start_time = Some t1, start_time_dt = None,
                   elapsed_time = 0\<rparr>) \<and>
         save_time_record lib (start_time_dt (snd (resume_timer t1 st))) now_dt elapsed_seconds
             comment f = Inl AttributeError \<and>
         stop_timer lib t2 answer now_dt (snd (resume_timer t1 st), f) =
           (Some AttributeError,
            \<lparr>timer_running = False, start_time = Some t1, start_time_dt = None,
             elapsed_time = fl lib (0 + fl lib (t2 - t1))\<rparr>, f)"
  using assms
  by (simp add: Idle_def init_def resume_timer_def stop_timer_def save_time_record_def)

text \<open>On a fresh installation (no file yet): resume at 100 s, stop a minute later.\<close>

theorem resume_from_idle_then_stop_witness:
  "Idle init \<and> load_records ref_lib None = Inr [] \<and>
   resume_timer 100 init =
     (None, \<lparr>timer_running = True, start_time = Some 100, start_time_dt = None,
             elapsed_time = 0\<rparr>) \<and>
   stop_timer ref_lib 160 (Some ''x'') (on_2025_01_01 9 1 0) (snd (resume_timer 100 init), None) =
     (Some AttributeError,
      \<lparr>timer_running = False, start_time = Some 100, start_time_dt = None,
       elapsed_time = 60\<rparr>, None)"
proof -
  have idle: "Idle init" by (simp add: Idle_def)
  have load: "load_records ref_lib None = Inr []" by (simp add: load_records_def)
  have "fl ref_lib (0 + fl ref_lib (160 - 100)) = 60" by (simp add: ref_lib_def)
  with idle load
    resume_from_idle_then_stop [OF idle load, of 100 "on_2025_01_01 9 1 0" 0 "[]" 160 "Some ''x''"]
  show ?thesis by (elim conjE) simp
qed

section \<open>The export\<close>

subsection \<open>Order of dates\<close>

lemma date_le_refl: "date_le d d"
  by (simp add: date_le_def)

lemma date_le_trans: "date_le a b \<Longrightarrow> date_le b c \<Longrightarrow> date_le a c"
  unfolding date_le_def by (rule order_trans)

lemma date_le_antisym: "date_le a b \<Longrightarrow> date_le b a \<Longrightarrow> a = b"
proof -
  assume "date_le a b" "date_le b a"
  then have "(year a, month a, day a) = (year b, month b, day b)"
    unfolding date_le_def by (rule order_antisym)
  then show "a = b" by simp
qed

lemma filter_loop_step:
  "start_time_is_text r \<Longrightarrow>
   filter_loop lib sd ed filtered (r # records) =
   filter_loop lib sd ed (if in_range lib sd ed r then filtered @ [r] else filtered) records"
  by (simp add: start_time_is_text_def in_range_def start_date_def getitem_def
        py_fromisoformat_def Let_def split: option.splits pyval.splits)

lemma filter_loop_filter:
  "list_all start_time_is_text records \<Longrightarrow>
   filter_loop lib sd ed filtered records = Inr (filtered @ filter (in_range lib sd ed) records)"
proof (induction records arbitrary: filtered)
  case Nil
  then show ?case by simp
next
  case (Cons r records)
  from Cons.prems have r: "start_time_is_text r" and rest: "list_all start_time_is_text records"
    by simp_all
  show ?case
    unfolding filter_loop_step [OF r] Cons.IH [OF rest] by simp
qed

lemma in_range_one_day: "in_range lib d d r \<longleftrightarrow> start_date lib r = Some d"
  by (auto simp: in_range_def date_le_refl dest: date_le_antisym split: option.splits)

lemma filter_one_day:
  "filter (in_range lib d d) records = filter (\<lambda>r. start_date lib r = Some d) records"
  by (rule filter_cong) (simp_all add: in_range_one_day)

lemma in_range_empty: "\<not> date_le sd ed \<Longrightarrow> \<not> in_range lib sd ed r"
  by (auto simp: in_range_def dest: date_le_trans split: option.splits)

subsection \<open>The filter\<close>

text \<open>
  On records whose \<open>start_time\<close>, where present, is a string, the loop of
  \<open>export_data_to_excel\<close> never fails and keeps exactly the records in range, in the order of
  the list: a record without \<open>start_time\<close> or with a text that does not parse has no start date
  and is left out. With the same date at both ends it keeps exactly the records that start on
  that day.
\<close>

lemma filter_loop_selects:
  assumes "list_all start_time_is_text records"
  shows "filter_loop lib sd ed [] records = Inr (filter (in_range lib sd ed) records) \<and>
         filter_loop lib d d [] records = Inr (filter (\<lambda>r. start_date lib r = Some d) records)"
  using filter_loop_filter [OF assms, of lib _ _ "[]"] by (simp add: filter_one_day)

lemma legacy_text: "list_all start_time_is_text (example_records @ legacy_records)"
  by (simp add: example_records_def legacy_records_def start_time_is_text_def)

lemma selected_two_days: "filter (in_range ref_lib jan_1 jan_2) (example_records @ legacy_records) =
   example_records @ [[(''start_time'', PStr ''2025-01-01T23:59:59''), (''elapsed'', PInt 60)]]"
  by code_simp

lemma selected_first_day: "filter (\<lambda>r. start_date ref_lib r = Some jan_1) (example_records @ legacy_records) =
   [hd example_records, [(''start_time'', PStr ''2025-01-01T23:59:59''), (''elapsed'', PInt 60)]]"
  by code_simp

text \<open>The five sample records, over two days and over the first day alone.\<close>

lemma filter_loop_selects_example:
  "list_all start_time_is_text (example_records @ legacy_records) \<and>
   filter_loop ref_lib jan_1 jan_2 [] (example_records @ legacy_records) =
     Inr (example_records @ [[(''start_time'', PStr ''2025-01-01T23:59:59''), (''elapsed'', PInt 60)]]) \<and>
   filter_loop ref_lib jan_1 jan_1 [] (example_records @ legacy_records) =
     Inr [hd example_records, [(''start_time'', PStr ''2025-01-01T23:59:59''), (''elapsed'', PInt 60)]]"
  using legacy_text filter_loop_selects [OF legacy_text, of ref_lib jan_1 jan_2 jan_1]
  by (simp only: selected_two_days selected_first_day simp_thms)

text \<open>
  A \<open>start_time\<close> that is not a string is not skipped: \<open>fromisoformat\<close> raises \<open>TypeError\<close> on
  the first of them, and the handler, which catches \<open>ValueError\<close> and \<open>KeyError\<close>, lets it
  through.
\<close>

lemma filter_loop_not_text:
  "\<not> list_all start_time_is_text records \<Longrightarrow>
   filter_loop lib sd ed filtered records = Inl TypeError"
proof (induction records arbitrary: filtered)
  case Nil
  then show ?case by simp
next
  case (Cons r records)
  show ?case
  proof (cases "start_time_is_text r")
    case True
    with Cons.prems have "\<not> list_all start_time_is_text records" by simp
    from Cons.IH [OF this] show ?thesis
      unfolding filter_loop_step [OF True] by simp
  next
    case False
    then show ?thesis
      by (auto simp: start_time_is_text_def getitem_def py_fromisoformat_def
            split: option.splits pyval.splits)
  qed
qed

lemma load_example: "load_records ref_lib example_file = Inr example_records"
  by code_simp

lemma parse_jan1: "strptime_date ref_lib ''2025-01-01'' = Some (at_time jan_1 0 0 0 0)"
  by code_simp

lemma parse_jan2: "strptime_date ref_lib ''2025-01-02'' = Some (at_time jan_2 0 0 0 0)"
  by code_simp

lemma date_of_at_time: "date_of (at_time d h mi s us) = d"
  by (simp add: date_of_def at_time_def)

lemma example_text: "list_all start_time_is_text example_records"
  by (simp add: example_records_def start_time_is_text_def)

lemma load_null_start: "load_records ref_lib null_start_file = Inr null_start_records"
  by code_simp

text \<open>
  Claim C7 at the input where the program departs from it: a record file that holds the
  scenario's first record and, after it, an entry whose \<open>start_time\<close> is \<open>null\<close>. The entry is
  not skipped; the loop ends in \<open>TypeError\<close>, whatever the library and the dates, and the
  export over the two days of the scenario fails with it, although the first record is in
  range. (\<open>iso_to_display\<close>, which parses the same field for the history window, catches
  \<open>TypeError\<close> as well.)
\<close>

theorem export_null_start_time:
  "load_records ref_lib null_start_file = Inr null_start_records \<and>
   filter_loop lib sd ed [] null_start_records = Inl TypeError \<and>
   export_data_to_excel ref_lib ''2025-01-01'' ''2025-01-02'' null_start_file = Inl TypeError"
proof -
  have "\<not> list_all start_time_is_text null_start_records"
    by (simp add: null_start_records_def start_time_is_text_def)
  then have loop: "\<And>lib sd ed. filter_loop lib sd ed [] null_start_records = Inl TypeError"
    by (rule filter_loop_not_text)
  show ?thesis
    by (simp add: loop load_null_start export_data_to_excel_def parse_jan1 parse_jan2)
qed

lemma filter_range_empty:
  "\<not> date_le sd ed \<Longrightarrow> filter (in_range lib sd ed) records = []"
  by (simp add: in_range_empty)

text \<open>
  Claim C3, as the program has it. The method does not compare the two dates. With the end
  date before the start date no record is in range, so the loop runs to its end with nothing
  selected and the method raises the error of an empty selection.
\<close>

theorem export_reversed_range:
  assumes "load_records lib f = Inr records"
    and "strptime_date lib start_date_str = Some sd"
    and "strptime_date lib end_date_str = Some ed"
    and "\<not> date_le (date_of sd) (date_of ed)"
    and "list_all start_time_is_text records"
  shows "filter_loop lib (date_of sd) (date_of ed) [] records = Inr [] \<and>
         export_data_to_excel lib start_date_str end_date_str f = Inl NoRecordsInRange"
proof -
  have "filter (in_range lib (date_of sd) (date_of ed)) records = []"
    using assms(4) by (simp add: in_range_empty)
  then have "filter_loop lib (date_of sd) (date_of ed) [] records = Inr []"
    using filter_loop_filter [OF assms(5), of lib "date_of sd" "date_of ed" "[]"] by simp
  then show ?thesis
    using assms(1-3) by (simp add: export_data_to_excel_def)
qed

lemma jan2_after_jan1: "\<not> date_le jan_2 jan_1"
  by (simp add: date_le_def jan_1_def jan_2_def)

text \<open>The scenario's file, asked for 2025-01-02 to 2025-01-01.\<close>

theorem export_reversed_range_witness:
  "load_records ref_lib example_file = Inr example_records \<and>
   strptime_date ref_lib ''2025-01-02'' = Some (at_time jan_2 0 0 0 0) \<and>
   strptime_date ref_lib ''2025-01-01'' = Some (at_time jan_1 0 0 0 0) \<and>
   \<not> date_le jan_2 jan_1 \<and>
   list_all start_time_is_text example_records \<and>
   filter_loop ref_lib jan_2 jan_1 [] example_records = Inr [] \<and>
   export_data_to_excel ref_lib ''2025-01-02'' ''2025-01-01'' example_file = Inl NoRecordsInRange"
  using export_reversed_range [OF load_example parse_jan2 parse_jan1 _ example_text]
    load_example parse_jan1 parse_jan2 jan2_after_jan1 example_text
  by (simp add: date_of_at_time)

text \<open>Claim C3 as stated fails there: the error is not \<open>InvalidDateRange\<close>.\<close>

theorem export_reversed_range_counterexample:
  "\<not> date_le jan_2 jan_1 \<and>
   export_data_to_excel ref_lib ''2025-01-02'' ''2025-01-01'' example_file \<noteq> Inl InvalidDateRange"
proof -
  have "filter_loop ref_lib jan_2 jan_1 [] example_records = Inr []"
    using filter_loop_filter [OF example_text, of ref_lib jan_2 jan_1 "[]"]
    by (simp only: filter_range_empty [OF jan2_after_jan1] append_Nil)
  then show ?thesis
    by (simp add: export_data_to_excel_def load_example parse_jan1 parse_jan2 date_of_at_time
          jan2_after_jan1)
qed

subsection \<open>The sheet\<close>

text \<open>What the format \<open>.2f\<close> prints is a decimal numeral, and the number it denotes.\<close>

lemma digit_cases:
  assumes "k < (10::nat)"
  obtains "k = 0" | "k = 1" | "k = 2" | "k = 3" | "k = 4" | "k = 5" | "k = 6" | "k = 7"
    | "k = 8" | "k = 9"
proof -
  have "k = 0 \<or> k = 1 \<or> k = 2 \<or> k = 3 \<or> k = 4 \<or> k = 5 \<or> k = 6 \<or> k = 7 \<or> k = 8 \<or> k = 9"
    using assms by arith
  then show thesis using that by blast
qed

lemma digit_char_is_digit:
  assumes "k < (10::nat)"
  shows "is_digit (''0123456789'' ! k)"
  using assms by (rule digit_cases) (simp_all add: is_digit_def)


lemma digit_is_digit: "is_digit (digit n)"
  unfolding digit_def by (rule digit_char_is_digit) simp


lemma digit_not_minus: "digit n \<noteq> CHR ''-''"
  using digit_is_digit [of n] by (auto simp: is_digit_def)































subsection \<open>Totals of floats\<close>

text \<open>Evaluation of \<open>fl64\<close>, and the floats nearest to 0.1 and 0.2.\<close>

lemma binade_numeral:
  "binade (numeral k) a =
     (if a < 4503599627370496 then binade (pred_numeral k) (2 * a) - 1
      else if 9007199254740992 \<le> a then binade (pred_numeral k) (a / 2) + 1
      else 0)"
  by (simp add: numeral_eq_Suc)

lemmas fl64_eval = fl64_def scaled_def binade_numeral round_half_even_def Let_def





lemma sum_three_311:
  "sum_numbers py311_lib 0 [Inr (3602879701896397 / 36028797018963968),
      Inr (3602879701896397 / 18014398509481984), Inr (5404319552844595 / 18014398509481984)]
     = Inr (1351079888211149 / 2251799813685248)"
  by (simp add: py311_lib_def ref_lib_def fl64_eval)

lemma sum_three_312:
  "sum_numbers py312_lib 0 [Inr (3602879701896397 / 36028797018963968),
      Inr (3602879701896397 / 18014398509481984), Inr (5404319552844595 / 18014398509481984)]
     = Inr (5404319552844595 / 9007199254740992)"
  by (simp add: py312_lib_def py311_lib_def ref_lib_def fl64_eval)

text \<open>
  The rounding of the division shows in the text: 18 seconds are 0.005 hours, which exact
  arithmetic prints as 0.00 (the even neighbour) and binary64, whose quotient lies above
  0.005, as 0.01.
\<close>

lemma eighteen_seconds:
  "format_2f (truediv_3600 py311_lib (Inl 18)) = ''0.01'' \<and>
   format_2f (truediv_3600 ref_lib (Inl 18)) = ''0.00''"
  by (simp add: py311_lib_def ref_lib_def fl64_eval format_2f_def d2_def digit_def decimal.simps)


















section \<open>The record file\<close>

lemma run_steps_chunks:
  "run_steps (map write_chunk cs) (Some s) = Some (s @ concat cs)"
  by (induction cs arbitrary: s) (simp_all add: run_steps_def write_chunk_def)

lemma run_steps_Cons: "run_steps (step # steps) g = run_steps steps (step g)"
  by (simp add: run_steps_def)

lemma save_records_upto_Suc:
  "save_records_upto (Suc n) lib records f = Some (concat (take n (json_dump lib records)))"
  by (simp add: save_records_upto_def save_records_steps_def run_steps_Cons open_w_def
        take_map run_steps_chunks)

lemma save_records_text: "save_records lib records f = Some (concat (json_dump lib records))"
  by (simp add: save_records_def save_records_steps_def run_steps_Cons open_w_def run_steps_chunks)

text \<open>
  Claim C4, as the program has it. \<open>save_records\<close> writes in place. Run to its end, it leaves
  the file holding the full serialisation of the given list, whatever the file held before.
  Stopped before its first effect it leaves the file as it was; stopped after \<open>n\<close> effects it
  leaves the file opened for writing, hence emptied, with the first \<open>n - 1\<close> chunks of the new
  text in it. There is no temporary file and no rename.
\<close>

theorem save_records_in_place:
  "save_records lib records f = Some (concat (json_dump lib records)) \<and>
   save_records_upto 0 lib records f = f \<and>
   (0 < n \<longrightarrow>
      save_records_upto n lib records f = Some (concat (take (n - 1) (json_dump lib records))))"
proof -
  have "0 < n \<longrightarrow>
      save_records_upto n lib records f = Some (concat (take (n - 1) (json_dump lib records)))"
    by (cases n) (simp_all add: save_records_upto_Suc)
  moreover have "save_records_upto 0 lib records f = f"
    by (simp add: save_records_upto_def run_steps_def)
  ultimately show ?thesis
    by (simp add: save_records_text)
qed

lemma dump_nonempty: "concat (json_dump ref_lib (r # rs)) \<noteq> []"
  by (simp add: ref_lib_def ref_json_dump_def)

lemma ref_load_empty: "load_records ref_lib (Some []) = Inl CorruptStorage"
  by (simp add: load_records_def ref_lib_def ref_json_load_def)

text \<open>Saving the one-record list over the scenario's file, stopped right after \<open>open\<close>.\<close>

theorem save_records_in_place_witness:
  "(0::nat) < 1 \<and>
   save_records_upto 1 ref_lib first_record_only example_file = Some [] \<and>
   save_records_upto 0 ref_lib first_record_only example_file = example_file \<and>
   save_records ref_lib first_record_only example_file =
     Some (concat (json_dump ref_lib first_record_only))"
  using save_records_in_place [of ref_lib first_record_only example_file 1]
  by simp

text \<open>
  Claim C4 as stated fails there: the file is empty, which is neither the previous content
  nor the new one, and the next \<open>load_records\<close> fails on it.
\<close>

theorem save_records_interrupted_counterexample:
  "save_records_upto 1 ref_lib first_record_only example_file \<noteq> example_file \<and>
   save_records_upto 1 ref_lib first_record_only example_file
     \<noteq> save_records ref_lib first_record_only example_file \<and>
   load_records ref_lib (save_records_upto 1 ref_lib first_record_only example_file)
     = Inl CorruptStorage"
proof -
  have cut: "save_records_upto 1 ref_lib first_record_only example_file = Some []"
    using save_records_upto_Suc [of 0 ref_lib first_record_only example_file] by simp
  have old: "example_file \<noteq> Some []"
    using dump_nonempty [of "hd example_records" "tl example_records"]
    by (simp add: example_file_def example_records_def)
  have new: "save_records ref_lib first_record_only example_file \<noteq> Some []"
    using dump_nonempty [of "hd example_records" "[]"]
    by (simp add: save_records_text first_record_only_def)
  show ?thesis
    unfolding cut using old new ref_load_empty by auto
qed

text \<open>
  Claim C9. Where \<open>load_records\<close> succeeds and the JSON library reads back what it writes for
  the loaded list, saving that list leaves a file from which \<open>load_records\<close> returns the same
  list: same records, same order, same fields. Saving it a second time changes nothing.
\<close>

theorem save_load_idempotent:
  assumes "load_records lib f = Inr records"
    and "json_load lib (concat (json_dump lib records)) = Some records"
  shows "load_records lib (save_records lib records f) = Inr records \<and>
         save_records lib records (save_records lib records f) = save_records lib records f"
  using assms(2) by (simp add: save_records_text load_records_def)

text \<open>The scenario's file.\<close>

theorem save_load_idempotent_witness:
  "load_records ref_lib example_file = Inr example_records \<and>
   json_load ref_lib (concat (json_dump ref_lib example_records)) = Some example_records \<and>
   load_records ref_lib (save_records ref_lib example_records example_file) = Inr example_records \<and>
   save_records ref_lib example_records (save_records ref_lib example_records example_file)
     = save_records ref_lib example_records example_file"
proof -
  have rt: "json_load ref_lib (concat (json_dump ref_lib example_records)) = Some example_records"
    using load_example by (simp add: example_file_def load_records_def split: option.splits)
  from save_load_idempotent [OF load_example rt] load_example rt show ?thesis by simp
qed

section \<open>The edit dialog\<close>

lemma map_of_setitem: "map_of (setitem r k v) = (map_of r)(k \<mapsto> v)"
  by (simp add: setitem_def update_conv')

lemma datetime_less_irrefl: "\<not> datetime_less dt dt"
  by (simp add: datetime_less_def)

text \<open>
  Claim C6. For a selected row, \<open>save_changes\<close> parses both texts with the format
  \<open>%Y-%m-%d %H:%M:%S\<close>. If either does not parse it reports \<open>InvalidFormat\<close>; if both parse
  it reports \<open>EndBeforeStart\<close> exactly when the end is earlier than the start; in both cases
  the list and the file are as before. Otherwise it sets the four keys of the selected record
  (the two datetimes in ISO form, the seconds between them, the comment as typed), leaves its
  other keys alone and saves the list. Equal start and end pass, with the float nearest to
  zero as the elapsed seconds.
\<close>

theorem save_changes_validates:
  assumes "index < length records"
  shows
    "((strptime_datetime lib new_start = None \<or> strptime_datetime lib new_end = None) \<longrightarrow>
        save_changes lib new_start new_end new_comment index (records, f)
          = (Some InvalidFormat, records, f)) \<and>
     (\<forall>dt_start dt_end.
        strptime_datetime lib new_start = Some dt_start \<and>
        strptime_datetime lib new_end = Some dt_end \<longrightarrow>
        (fst (save_changes lib new_start new_end new_comment index (records, f))
           = Some EndBeforeStart \<longleftrightarrow> datetime_less dt_end dt_start) \<and>
        (datetime_less dt_end dt_start \<longrightarrow>
           save_changes lib new_start new_end new_comment index (records, f)
             = (Some EndBeforeStart, records, f)) \<and>
        (\<not> datetime_less dt_end dt_start \<longrightarrow>
           (\<exists>r. save_changes lib new_start new_end new_comment index (records, f)
                  = (None, records[index := r], save_records lib (records[index := r]) f) \<and>
                map_of r = (map_of (records ! index))
                  (''start_time'' \<mapsto> PStr (isoformat dt_start),
                   ''end_time'' \<mapsto> PStr (isoformat dt_end),
                   ''elapsed'' \<mapsto> PFloat (total_seconds lib dt_end dt_start),
                   ''comment'' \<mapsto> PStr new_comment))) \<and>
        (dt_end = dt_start \<longrightarrow>
           \<not> datetime_less dt_end dt_start \<and> total_seconds lib dt_end dt_start = fl lib 0))"
proof -
  have bad: "(strptime_datetime lib new_start = None \<or> strptime_datetime lib new_end = None) \<longrightarrow>
        save_changes lib new_start new_end new_comment index (records, f)
          = (Some InvalidFormat, records, f)"
    using assms by (auto simp: save_changes_def split: option.splits)
  have good: "\<And>dt_start dt_end.
        strptime_datetime lib new_start = Some dt_start \<Longrightarrow>
        strptime_datetime lib new_end = Some dt_end \<Longrightarrow>
        (fst (save_changes lib new_start new_end new_comment index (records, f))
           = Some EndBeforeStart \<longleftrightarrow> datetime_less dt_end dt_start) \<and>
        (datetime_less dt_end dt_start \<longrightarrow>
           save_changes lib new_start new_end new_comment index (records, f)
             = (Some EndBeforeStart, records, f)) \<and>
        (\<not> datetime_less dt_end dt_start \<longrightarrow>
           (\<exists>r. save_changes lib new_start new_end new_comment index (records, f)
                  = (None, records[index := r], save_records lib (records[index := r]) f) \<and>
                map_of r = (map_of (records ! index))
                  (''start_time'' \<mapsto> PStr (isoformat dt_start),
                   ''end_time'' \<mapsto> PStr (isoformat dt_end),
                   ''elapsed'' \<mapsto> PFloat (total_seconds lib dt_end dt_start),
                   ''comment'' \<mapsto> PStr new_comment))) \<and>
        (dt_end = dt_start \<longrightarrow>
           \<not> datetime_less dt_end dt_start \<and> total_seconds lib dt_end dt_start = fl lib 0)"
    using assms
    by (auto simp: save_changes_def Let_def map_of_setitem datetime_less_irrefl total_seconds_def)
  show ?thesis using bad good by blast
qed

lemma parse_0900: "strptime_datetime ref_lib ''2025-01-01 09:00:00'' = Some (on_2025_01_01 9 0 0)"
  by code_simp

lemma parse_1000: "strptime_datetime ref_lib ''2025-01-01 10:00:00'' = Some (on_2025_01_01 10 0 0)"
  by code_simp

lemma parse_1030: "strptime_datetime ref_lib ''2025-01-01 10:30:00'' = Some (on_2025_01_01 10 30 0)"
  by code_simp

lemma parse_tomorrow: "strptime_datetime ref_lib ''tomorrow'' = None"
  by code_simp

lemma nine_before_ten: "datetime_less (on_2025_01_01 9 0 0) (on_2025_01_01 10 0 0)"
  by (simp add: datetime_less_def on_2025_01_01_def at_time_def)

lemma half_past_ten_after_nine: "\<not> datetime_less (on_2025_01_01 10 30 0) (on_2025_01_01 9 0 0)"
  by (simp add: datetime_less_def on_2025_01_01_def at_time_def)

lemma same_time: "total_seconds ref_lib (on_2025_01_01 9 0 0) (on_2025_01_01 9 0 0) = 0"
  by (simp add: total_seconds_def ref_lib_def)

lemma ninety_minutes: "total_seconds ref_lib (on_2025_01_01 10 30 0) (on_2025_01_01 9 0 0) = 5400"
  by (simp add: total_seconds_def microseconds_of_def toordinal_def on_2025_01_01_def
        at_time_def ref_lib_def)

text \<open>
  On the first record of the scenario: a start that does not parse, the end an hour before
  the start, and the record's own times.
\<close>

theorem save_changes_validates_witness:
  "0 < length example_records \<and>
   save_changes ref_lib ''tomorrow'' ''2025-01-01 09:00:00'' ''x'' 0 (example_records, example_file)
     = (Some InvalidFormat, example_records, example_file) \<and>
   save_changes ref_lib ''2025-01-01 10:00:00'' ''2025-01-01 09:00:00'' ''x'' 0
       (example_records, example_file)
     = (Some EndBeforeStart, example_records, example_file) \<and>
   fst (save_changes ref_lib ''2025-01-01 09:00:00'' ''2025-01-01 10:30:00'' ''x'' 0
       (example_records, example_file)) = None \<and>
   map_of (fst (snd (save_changes ref_lib ''2025-01-01 09:00:00'' ''2025-01-01 10:30:00'' ''x'' 0
       (example_records, example_file))) ! 0) ''elapsed'' = Some (PFloat 5400) \<and>
   total_seconds ref_lib (on_2025_01_01 9 0 0) (on_2025_01_01 9 0 0) = 0 \<and>
   map_of (fst (snd (save_changes ref_lib ''2025-01-01 09:00:00'' ''2025-01-01 10:30:00'' ''x'' 0
       (example_records, example_file))) ! 0) ''comment'' = Some (PStr ''x'')"
proof -
  have len: "0 < length example_records" by (simp add: example_records_def)
  have bad: "save_changes ref_lib ''tomorrow'' ''2025-01-01 09:00:00'' ''x'' 0
      (example_records, example_file) = (Some InvalidFormat, example_records, example_file)"
    using save_changes_validates [OF len, of ref_lib "''tomorrow''" "''2025-01-01 09:00:00''"
        "''x''" example_file] parse_tomorrow
    by blast
  have before: "save_changes ref_lib ''2025-01-01 10:00:00'' ''2025-01-01 09:00:00'' ''x'' 0
      (example_records, example_file) = (Some EndBeforeStart, example_records, example_file)"
    using save_changes_validates [OF len, of ref_lib "''2025-01-01 10:00:00''"
        "''2025-01-01 09:00:00''" "''x''" example_file] parse_1000 parse_0900 nine_before_ten
    by blast
  obtain r where r: "save_changes ref_lib ''2025-01-01 09:00:00'' ''2025-01-01 10:30:00'' ''x'' 0
      (example_records, example_file)
        = (None, example_records[0 := r], save_records ref_lib (example_records[0 := r]) example_file)"
    and fields: "map_of r = (map_of (example_records ! 0))
                  (''start_time'' \<mapsto> PStr (isoformat (on_2025_01_01 9 0 0)),
                   ''end_time'' \<mapsto> PStr (isoformat (on_2025_01_01 10 30 0)),
                   ''elapsed'' \<mapsto> PFloat (total_seconds ref_lib (on_2025_01_01 10 30 0)
                      (on_2025_01_01 9 0 0)),
                   ''comment'' \<mapsto> PStr ''x'')"
    using save_changes_validates [OF len, of ref_lib "''2025-01-01 09:00:00''"
        "''2025-01-01 10:30:00''" "''x''" example_file] parse_0900 parse_1030
        half_past_ten_after_nine
    by blast
  have at0: "example_records[0 := r] ! 0 = r"
    using len by simp
  show ?thesis
    using len bad before by (simp add: r at0 fields ninety_minutes same_time)
qed

end
